theory Spec2Isabelle
  imports Main
begin

section \<open>Data model of \<^verbatim>\<open>backend/claims/permissions.py\<close>\<close>

text \<open>
  The permission classes read four things: \<^verbatim>\<open>request.user\<close>, \<^verbatim>\<open>request.method\<close>,
  the optional \<^verbatim>\<open>profile\<close> of the user, and the attributes \<^verbatim>\<open>claimant\<close>,
  \<^verbatim>\<open>holder\<close>, \<^verbatim>\<open>user\<close> of the object a view hands to the object-level check.

  A Python attribute may be absent from an object, or present with a value; the value of
  \<^verbatim>\<open>profile\<close> and of an ownership attribute may also be Python's \<^verbatim>\<open>None\<close>, which is the
  \<open>None\<close> of the option type below.
\<close>

datatype 'a attr = Missing | Present 'a

text \<open>The profile of a user carries the role, a string.\<close>

record profile_obj =
  role :: string

text \<open>
  A user: \<open>ident\<close> is the identity of the object (the primary key of a stored user),
  \<open>is_authenticated\<close> the flag of the same name, \<open>profile\<close> the attribute read by
  \<^verbatim>\<open>getattr(user, 'profile', None)\<close>.
\<close>

record user_obj =
  ident :: nat
  is_authenticated :: bool
  profile :: "profile_obj option attr"

text \<open>
  A request, as far as the permission classes look at it: \<open>req_method\<close> is the
  attribute \<^verbatim>\<open>request.method\<close>.
\<close>

record request =
  user :: user_obj
  req_method :: string

text \<open>
  The object of an object-level check is duck-typed: the code asks by name whether it has an
  attribute and then reads it. It is a finite map from attribute names to values; a value is
  a reference to a user or \<^verbatim>\<open>None\<close>.
\<close>

type_synonym target_obj = "string \<rightharpoonup> user_obj option"

definition hasattr :: "target_obj \<Rightarrow> string \<Rightarrow> bool" where
  "hasattr obj a = (case obj a of None \<Rightarrow> False | Some v \<Rightarrow> True)"

definition attr_value :: "target_obj \<Rightarrow> string \<Rightarrow> user_obj option" where
  "attr_value obj a = (case obj a of None \<Rightarrow> None | Some v \<Rightarrow> v)"

text \<open>
  \<^verbatim>\<open>obj.claimant == request.user\<close>: two references are equal when they name the same user;
  \<^verbatim>\<open>None\<close> equals no user.
\<close>

definition user_eq :: "user_obj option \<Rightarrow> user_obj \<Rightarrow> bool" where
  "user_eq v u = (case v of None \<Rightarrow> False | Some w \<Rightarrow> ident w = ident u)"

section \<open>Helpers\<close>

definition STAFF_ROLES :: "string list" where
  "STAFF_ROLES = [''admin'', ''manager'', ''adjuster'', ''reviewer'', ''agent'']"

definition MANAGEMENT_ROLES :: "string list" where
  "MANAGEMENT_ROLES = [''admin'', ''manager'']"

definition PROCESSING_ROLES :: "string list" where
  "PROCESSING_ROLES = [''admin'', ''manager'', ''adjuster'']"

definition OVERSIGHT_ROLES :: "string list" where
  "OVERSIGHT_ROLES = [''admin'', ''manager'', ''reviewer'']"

text \<open>
  Modelled from the spec: \<^verbatim>\<open>permissions.SAFE_METHODS\<close>, a constant of the REST
  framework the module imports and not defined in this repository. Its value is the
  read-only set the specification names: GET, HEAD, OPTIONS.
\<close>

definition SAFE_METHODS :: "string list" where
  "SAFE_METHODS = [''GET'', ''HEAD'', ''OPTIONS'']"

text \<open>\<^verbatim>\<open>getattr(user, 'profile', None)\<close>\<close>

definition getattr_profile :: "user_obj \<Rightarrow> profile_obj option" where
  "getattr_profile u = (case profile u of Missing \<Rightarrow> None | Present v \<Rightarrow> v)"

text \<open>\<^verbatim>\<open>_get_role\<close>: \<^verbatim>\<open>profile.role if profile else 'customer'\<close>\<close>

definition get_role :: "user_obj \<Rightarrow> string" where
  "get_role u = (case getattr_profile u of Some p \<Rightarrow> role p | None \<Rightarrow> ''customer'')"

section \<open>Permission classes\<close>

text \<open>
  Every \<^verbatim>\<open>has_permission(self, request, view)\<close> becomes a function of the request and
  the view; no class keeps a field, so \<^verbatim>\<open>self\<close> carries nothing.
\<close>

definition IsAdmin_has_permission :: "request \<Rightarrow> 'v \<Rightarrow> bool" where
  "IsAdmin_has_permission req view =
     (is_authenticated (user req) \<and> get_role (user req) = ''admin'')"

definition IsManagement_has_permission :: "request \<Rightarrow> 'v \<Rightarrow> bool" where
  "IsManagement_has_permission req view =
     (is_authenticated (user req) \<and> get_role (user req) \<in> set MANAGEMENT_ROLES)"

definition IsStaff_has_permission :: "request \<Rightarrow> 'v \<Rightarrow> bool" where
  "IsStaff_has_permission req view =
     (is_authenticated (user req) \<and> get_role (user req) \<in> set STAFF_ROLES)"

definition IsStaffOrReadOnly_has_permission :: "request \<Rightarrow> 'v \<Rightarrow> bool" where
  "IsStaffOrReadOnly_has_permission req view =
     (if \<not> is_authenticated (user req) then False
      else if req_method req \<in> set SAFE_METHODS then True
      else get_role (user req) \<in> set STAFF_ROLES)"

definition IsOwnerOrStaff_has_object_permission :: "request \<Rightarrow> 'v \<Rightarrow> target_obj \<Rightarrow> bool" where
  "IsOwnerOrStaff_has_object_permission req view obj =
     (let r = get_role (user req) in
      if r \<in> set STAFF_ROLES then True
      else if hasattr obj ''claimant'' \<and> user_eq (attr_value obj ''claimant'') (user req) then True
      else if hasattr obj ''holder'' \<and> user_eq (attr_value obj ''holder'') (user req) then True
      else if hasattr obj ''user'' \<and> user_eq (attr_value obj ''user'') (user req) then True
      else False)"

definition CanProcessClaims_has_permission :: "request \<Rightarrow> 'v \<Rightarrow> bool" where
  "CanProcessClaims_has_permission req view =
     (is_authenticated (user req) \<and> get_role (user req) \<in> set PROCESSING_ROLES)"

definition CanAssignClaims_has_permission :: "request \<Rightarrow> 'v \<Rightarrow> bool" where
  "CanAssignClaims_has_permission req view =
     (is_authenticated (user req) \<and> get_role (user req) \<in> set MANAGEMENT_ROLES)"

definition CanManageFraudAlerts_has_permission :: "request \<Rightarrow> 'v \<Rightarrow> bool" where
  "CanManageFraudAlerts_has_permission req view =
     (if \<not> is_authenticated (user req) then False
      else let r = get_role (user req) in
        if req_method req \<in> set SAFE_METHODS
        then r \<in> set [''admin'', ''manager'', ''adjuster'', ''reviewer'']
        else r \<in> set [''admin'', ''manager'', ''adjuster''])"

definition CanViewAnalytics_has_permission :: "request \<Rightarrow> 'v \<Rightarrow> bool" where
  "CanViewAnalytics_has_permission req view =
     (is_authenticated (user req) \<and> get_role (user req) \<in> set OVERSIGHT_ROLES)"

definition CanManageUsers_has_permission :: "request \<Rightarrow> 'v \<Rightarrow> bool" where
  "CanManageUsers_has_permission req view =
     (is_authenticated (user req) \<and> get_role (user req) \<in> set MANAGEMENT_ROLES)"


text \<open>An object exposes the attribute and its value is the user.\<close>

definition owned_via :: "target_obj \<Rightarrow> user_obj \<Rightarrow> string \<Rightarrow> bool" where
  "owned_via obj u a = (hasattr obj a \<and> user_eq (attr_value obj a) u)"


section \<open>The same code over Python objects\<close>

text \<open>
  The records above fix the shape of the arguments. To say that a permission class raises
  nothing and writes nothing, the arguments are taken here as Python has them: values that
  are \<^verbatim>\<open>None\<close>, a boolean, a string or a reference to an object, and a heap giving each
  object its attributes by name. Reading an attribute that is not there raises
  \<^verbatim>\<open>AttributeError\<close>; it is the only exception the statements of the module can raise.
  A reference is the identity of an object, for a stored user the row it was loaded from:
  two references are equal exactly when they name the same object, and that is how
  \<^verbatim>\<open>==\<close> compares an owner with the requesting user.
\<close>

datatype pyval = PyNone | PyBool bool | PyStr string | PyRef nat

type_synonym heap = "nat \<rightharpoonup> (string \<rightharpoonup> pyval)"

datatype error = AttributeError

text \<open>
  A computation takes the heap and returns a value or an exception, together with the heap
  it leaves behind.
\<close>

type_synonym 'a py = "heap \<Rightarrow> (error + 'a) \<times> heap"

definition py_return :: "'a \<Rightarrow> 'a py" where
  "py_return x = (\<lambda>h. (Inr x, h))"

definition py_bind :: "'a py \<Rightarrow> ('a \<Rightarrow> 'b py) \<Rightarrow> 'b py" where
  "py_bind m f = (\<lambda>h. case m h of (Inl e, h') \<Rightarrow> (Inl e, h') | (Inr x, h') \<Rightarrow> f x h')"

text \<open>The attribute \<open>n\<close> of the value \<open>v\<close>, when \<open>v\<close> is an object that has it.\<close>

definition attr_lookup :: "heap \<Rightarrow> pyval \<Rightarrow> string \<Rightarrow> pyval option" where
  "attr_lookup h v n =
     (case v of
        PyRef a \<Rightarrow> (case h a of None \<Rightarrow> None | Some d \<Rightarrow> d n)
      | PyNone \<Rightarrow> None
      | PyBool b \<Rightarrow> None
      | PyStr s \<Rightarrow> None)"

text \<open>\<^verbatim>\<open>v.n\<close>\<close>

definition py_getattr :: "pyval \<Rightarrow> string \<Rightarrow> pyval py" where
  "py_getattr v n =
     (\<lambda>h. (case attr_lookup h v n of None \<Rightarrow> Inl AttributeError | Some x \<Rightarrow> Inr x, h))"

text \<open>\<^verbatim>\<open>getattr(v, n, d)\<close>\<close>

definition py_getattr_default :: "pyval \<Rightarrow> string \<Rightarrow> pyval \<Rightarrow> pyval py" where
  "py_getattr_default v n d =
     (\<lambda>h. (Inr (case attr_lookup h v n of None \<Rightarrow> d | Some x \<Rightarrow> x), h))"

text \<open>\<^verbatim>\<open>hasattr(v, n)\<close>\<close>

definition py_hasattr :: "pyval \<Rightarrow> string \<Rightarrow> bool py" where
  "py_hasattr v n =
     (\<lambda>h. (Inr (case attr_lookup h v n of None \<Rightarrow> False | Some x \<Rightarrow> True), h))"

text \<open>The truth value Python gives a value in a condition.\<close>

definition truthy :: "pyval \<Rightarrow> bool" where
  "truthy v =
     (case v of PyNone \<Rightarrow> False | PyBool b \<Rightarrow> b | PyStr s \<Rightarrow> s \<noteq> [] | PyRef a \<Rightarrow> True)"

text \<open>\<^verbatim>\<open>v in t\<close> for a tuple \<open>t\<close> of strings: only a string can equal one of them.\<close>

definition py_in :: "pyval \<Rightarrow> string list \<Rightarrow> bool" where
  "py_in v t =
     (case v of PyStr s \<Rightarrow> s \<in> set t | PyNone \<Rightarrow> False | PyBool b \<Rightarrow> False | PyRef a \<Rightarrow> False)"

text \<open>\<^verbatim>\<open>_get_role(user)\<close>\<close>

definition py_get_role :: "pyval \<Rightarrow> pyval py" where
  "py_get_role u =
     py_bind (py_getattr_default u ''profile'' PyNone) (\<lambda>p.
       if truthy p then py_getattr p ''role'' else py_return (PyStr ''customer''))"

text \<open>
  \<^verbatim>\<open>request.user.is_authenticated and t(_get_role(request.user))\<close>, the body of seven of
  the classes; \<open>t\<close> is the test on the role. Python's \<^verbatim>\<open>and\<close> returns its left operand
  when that is false in a condition, and its right operand otherwise.
\<close>

definition authenticated_and :: "pyval \<Rightarrow> (pyval \<Rightarrow> bool) \<Rightarrow> pyval py" where
  "authenticated_and req t =
     py_bind (py_getattr req ''user'') (\<lambda>u.
     py_bind (py_getattr u ''is_authenticated'') (\<lambda>a.
       if \<not> truthy a then py_return a
       else py_bind (py_getattr req ''user'') (\<lambda>u'.
            py_bind (py_get_role u') (\<lambda>r.
              py_return (PyBool (t r))))))"

definition py_IsAdmin :: "pyval \<Rightarrow> 'v \<Rightarrow> pyval py" where
  "py_IsAdmin req view = authenticated_and req (\<lambda>r. r = PyStr ''admin'')"

definition py_IsManagement :: "pyval \<Rightarrow> 'v \<Rightarrow> pyval py" where
  "py_IsManagement req view = authenticated_and req (\<lambda>r. py_in r MANAGEMENT_ROLES)"

definition py_IsStaff :: "pyval \<Rightarrow> 'v \<Rightarrow> pyval py" where
  "py_IsStaff req view = authenticated_and req (\<lambda>r. py_in r STAFF_ROLES)"

definition py_IsStaffOrReadOnly :: "pyval \<Rightarrow> 'v \<Rightarrow> pyval py" where
  "py_IsStaffOrReadOnly req view =
     py_bind (py_getattr req ''user'') (\<lambda>u.
     py_bind (py_getattr u ''is_authenticated'') (\<lambda>a.
       if \<not> truthy a then py_return (PyBool False)
       else py_bind (py_getattr req ''method'') (\<lambda>m.
         if py_in m SAFE_METHODS then py_return (PyBool True)
         else py_bind (py_getattr req ''user'') (\<lambda>u'.
              py_bind (py_get_role u') (\<lambda>r.
                py_return (PyBool (py_in r STAFF_ROLES)))))))"

text \<open>\<^verbatim>\<open>hasattr(obj, n) and getattr(obj, n) == request.user\<close>, as a condition.\<close>

definition py_owner_test :: "pyval \<Rightarrow> pyval \<Rightarrow> string \<Rightarrow> bool py" where
  "py_owner_test req obj n =
     py_bind (py_hasattr obj n) (\<lambda>p.
       if \<not> p then py_return False
       else py_bind (py_getattr obj n) (\<lambda>c.
            py_bind (py_getattr req ''user'') (\<lambda>u.
              py_return (c = u))))"

definition py_IsOwnerOrStaff :: "pyval \<Rightarrow> 'v \<Rightarrow> pyval \<Rightarrow> pyval py" where
  "py_IsOwnerOrStaff req view obj =
     py_bind (py_getattr req ''user'') (\<lambda>u.
     py_bind (py_get_role u) (\<lambda>r.
       if py_in r STAFF_ROLES then py_return (PyBool True)
       else py_bind (py_owner_test req obj ''claimant'') (\<lambda>c1.
         if c1 then py_return (PyBool True)
         else py_bind (py_owner_test req obj ''holder'') (\<lambda>c2.
           if c2 then py_return (PyBool True)
           else py_bind (py_owner_test req obj ''user'') (\<lambda>c3.
             if c3 then py_return (PyBool True)
             else py_return (PyBool False))))))"

definition py_CanProcessClaims :: "pyval \<Rightarrow> 'v \<Rightarrow> pyval py" where
  "py_CanProcessClaims req view = authenticated_and req (\<lambda>r. py_in r PROCESSING_ROLES)"

definition py_CanAssignClaims :: "pyval \<Rightarrow> 'v \<Rightarrow> pyval py" where
  "py_CanAssignClaims req view = authenticated_and req (\<lambda>r. py_in r MANAGEMENT_ROLES)"

definition py_CanManageFraudAlerts :: "pyval \<Rightarrow> 'v \<Rightarrow> pyval py" where
  "py_CanManageFraudAlerts req view =
     py_bind (py_getattr req ''user'') (\<lambda>u.
     py_bind (py_getattr u ''is_authenticated'') (\<lambda>a.
       if \<not> truthy a then py_return (PyBool False)
       else py_bind (py_getattr req ''user'') (\<lambda>u'.
            py_bind (py_get_role u') (\<lambda>r.
            py_bind (py_getattr req ''method'') (\<lambda>m.
              if py_in m SAFE_METHODS
              then py_return (PyBool (py_in r [''admin'', ''manager'', ''adjuster'', ''reviewer'']))
              else py_return (PyBool (py_in r [''admin'', ''manager'', ''adjuster''])))))))"

definition py_CanViewAnalytics :: "pyval \<Rightarrow> 'v \<Rightarrow> pyval py" where
  "py_CanViewAnalytics req view = authenticated_and req (\<lambda>r. py_in r OVERSIGHT_ROLES)"

definition py_CanManageUsers :: "pyval \<Rightarrow> 'v \<Rightarrow> pyval py" where
  "py_CanManageUsers req view = authenticated_and req (\<lambda>r. py_in r MANAGEMENT_ROLES)"

text \<open>A computation that leaves every heap as it found it.\<close>

definition preserves_heap :: "'a py \<Rightarrow> bool" where
  "preserves_heap m = (\<forall>h. snd (m h) = h)"

subsection \<open>The input domain\<close>

text \<open>
  What a user object on the heap says, as a record: its address is its identity; it is
  authenticated when the flag is the boolean true; its profile is absent, or an object with
  a role string, or anything else, which counts as \<^verbatim>\<open>None\<close>.
\<close>

definition abs_profile :: "heap \<Rightarrow> nat \<Rightarrow> profile_obj option attr" where
  "abs_profile h a =
     (case attr_lookup h (PyRef a) ''profile'' of
        None \<Rightarrow> Missing
      | Some p \<Rightarrow>
          (case attr_lookup h p ''role'' of
             Some (PyStr r) \<Rightarrow> Present (Some \<lparr>role = r\<rparr>)
           | _ \<Rightarrow> Present None))"

definition abs_user :: "heap \<Rightarrow> nat \<Rightarrow> user_obj" where
  "abs_user h a =
     \<lparr>ident = a,
      is_authenticated = (attr_lookup h (PyRef a) ''is_authenticated'' = Some (PyBool True)),
      profile = abs_profile h a\<rparr>"

text \<open>
  The profile of a user in the input domain: no attribute, \<^verbatim>\<open>None\<close>, or an object whose
  role is a string.
\<close>

definition profile_ok :: "heap \<Rightarrow> nat \<Rightarrow> bool" where
  "profile_ok h a =
     (case attr_lookup h (PyRef a) ''profile'' of
        None \<Rightarrow> True
      | Some PyNone \<Rightarrow> True
      | Some (PyRef p) \<Rightarrow>
          (case attr_lookup h (PyRef p) ''role'' of Some (PyStr r) \<Rightarrow> True | _ \<Rightarrow> False)
      | Some _ \<Rightarrow> False)"

text \<open>
  A request of the input domain and the record it stands for: an object whose
  \<^verbatim>\<open>user\<close> is an object with a boolean \<^verbatim>\<open>is_authenticated\<close> and a profile as above, and
  whose \<^verbatim>\<open>method\<close> is a string. Every other value is outside the domain.
\<close>

definition abs_request :: "heap \<Rightarrow> pyval \<Rightarrow> request option" where
  "abs_request h req =
     (case attr_lookup h req ''user'' of
        Some (PyRef a) \<Rightarrow>
          (case attr_lookup h (PyRef a) ''is_authenticated'' of
             Some (PyBool b) \<Rightarrow>
               (case attr_lookup h req ''method'' of
                  Some (PyStr m) \<Rightarrow>
                    if profile_ok h a then Some \<lparr>user = abs_user h a, req_method = m\<rparr>
                    else None
                | _ \<Rightarrow> None)
           | _ \<Rightarrow> None)
      | _ \<Rightarrow> None)"

text \<open>
  The object of an object-level check, as the map of its attributes: a reference stands for
  the user at that address, any other value for \<^verbatim>\<open>None\<close>, which equals no user.
\<close>

definition abs_target :: "heap \<Rightarrow> pyval \<Rightarrow> target_obj" where
  "abs_target h obj n =
     (case attr_lookup h obj n of
        None \<Rightarrow> None
      | Some (PyRef a) \<Rightarrow> Some (Some (abs_user h a))
      | Some _ \<Rightarrow> Some None)"

section \<open>Properties\<close>

lemmas group_defs =
  STAFF_ROLES_def MANAGEMENT_ROLES_def PROCESSING_ROLES_def OVERSIGHT_ROLES_def

lemmas has_permission_defs =
  IsAdmin_has_permission_def IsManagement_has_permission_def IsStaff_has_permission_def
  IsStaffOrReadOnly_has_permission_def CanProcessClaims_has_permission_def
  CanAssignClaims_has_permission_def CanManageFraudAlerts_has_permission_def
  CanViewAnalytics_has_permission_def CanManageUsers_has_permission_def

lemma owned_via_ident: "ident u' = ident u \<Longrightarrow> owned_via obj u' a = owned_via obj u a"
  by (cases "attr_value obj a") (simp_all add: owned_via_def user_eq_def)

lemma owner_or_staff_unfold:
  "IsOwnerOrStaff_has_object_permission req view obj =
     (get_role (user req) \<in> set STAFF_ROLES
      \<or> owned_via obj (user req) ''claimant''
      \<or> owned_via obj (user req) ''holder''
      \<or> owned_via obj (user req) ''user'')"
  by (simp add: IsOwnerOrStaff_has_object_permission_def owned_via_def Let_def)

text \<open>
  C2. The object-level decision of \<^verbatim>\<open>IsOwnerOrStaff\<close> is true exactly when the resolved
  role of the requesting user is one of admin, manager, adjuster, reviewer, agent, or one of
  the attributes claimant, holder, user is present on the object with the requesting user as
  its value; in every other case it is false.
\<close>

theorem owner_or_staff_iff:
  "IsOwnerOrStaff_has_object_permission req view obj =
     (get_role (user req) \<in> {''admin'', ''manager'', ''adjuster'', ''reviewer'', ''agent''}
      \<or> (\<exists>a \<in> {''claimant'', ''holder'', ''user''}.
            hasattr obj a \<and> user_eq (attr_value obj a) (user req)))"
  by (simp add: owner_or_staff_unfold owned_via_def STAFF_ROLES_def)

theorem owner_or_staff_iff_witness:
  "IsOwnerOrStaff_has_object_permission
     \<lparr>user = \<lparr>ident = 1, is_authenticated = True, profile = Missing\<rparr>, req_method = ''POST''\<rparr> ()
     [''claimant'' \<mapsto> Some \<lparr>ident = 1, is_authenticated = True, profile = Missing\<rparr>]
   \<and> \<not> IsOwnerOrStaff_has_object_permission
     \<lparr>user = \<lparr>ident = 2, is_authenticated = True, profile = Missing\<rparr>, req_method = ''POST''\<rparr> ()
     [''claimant'' \<mapsto> Some \<lparr>ident = 1, is_authenticated = True, profile = Missing\<rparr>]
   \<and> IsOwnerOrStaff_has_object_permission
     \<lparr>user = \<lparr>ident = 2, is_authenticated = True,
               profile = Present (Some \<lparr>role = ''agent''\<rparr>)\<rparr>, req_method = ''POST''\<rparr> ()
     [''claimant'' \<mapsto> Some \<lparr>ident = 1, is_authenticated = True, profile = Missing\<rparr>]"
  by (simp add: owner_or_staff_iff hasattr_def attr_value_def user_eq_def get_role_def
      getattr_profile_def)

text \<open>
  C10. \<^verbatim>\<open>IsManagement\<close>, \<^verbatim>\<open>CanAssignClaims\<close> and \<^verbatim>\<open>CanManageUsers\<close> decide alike on
  every request: each is true exactly when the user is authenticated and the resolved role
  is admin or manager.
\<close>

theorem management_decisions_equal:
  "IsManagement_has_permission req view =
     (is_authenticated (user req) \<and> get_role (user req) \<in> {''admin'', ''manager''})
   \<and> CanAssignClaims_has_permission req view = IsManagement_has_permission req view
   \<and> CanManageUsers_has_permission req view = IsManagement_has_permission req view"
  by (simp add: IsManagement_has_permission_def CanAssignClaims_has_permission_def
      CanManageUsers_has_permission_def MANAGEMENT_ROLES_def)

text \<open>
  C3. For an authenticated user, \<^verbatim>\<open>CanManageFraudAlerts\<close> allows a request with a safe
  (read-only) method exactly when the resolved role is admin, manager, adjuster or reviewer,
  and a request with any other method exactly when the role is admin, manager or adjuster.
  So a reviewer is allowed exactly on the read-only requests.
\<close>

theorem fraud_alerts_by_method:
  assumes "is_authenticated (user req)"
  shows "(req_method req \<in> set SAFE_METHODS \<longrightarrow>
            CanManageFraudAlerts_has_permission req view =
              (get_role (user req) \<in> {''admin'', ''manager'', ''adjuster'', ''reviewer''}))
       \<and> (req_method req \<notin> set SAFE_METHODS \<longrightarrow>
            CanManageFraudAlerts_has_permission req view =
              (get_role (user req) \<in> {''admin'', ''manager'', ''adjuster''}))
       \<and> (get_role (user req) = ''reviewer'' \<longrightarrow>
            CanManageFraudAlerts_has_permission req view = (req_method req \<in> set SAFE_METHODS))"
  using assms by (simp add: CanManageFraudAlerts_has_permission_def Let_def)

theorem fraud_alerts_by_method_witness:
  "is_authenticated (user \<lparr>user = \<lparr>ident = 3, is_authenticated = True,
       profile = Present (Some \<lparr>role = ''reviewer''\<rparr>)\<rparr>, req_method = ''GET''\<rparr>)
   \<and> CanManageFraudAlerts_has_permission
       \<lparr>user = \<lparr>ident = 3, is_authenticated = True,
          profile = Present (Some \<lparr>role = ''reviewer''\<rparr>)\<rparr>, req_method = ''GET''\<rparr> ()
   \<and> \<not> CanManageFraudAlerts_has_permission
       \<lparr>user = \<lparr>ident = 3, is_authenticated = True,
          profile = Present (Some \<lparr>role = ''reviewer''\<rparr>)\<rparr>, req_method = ''POST''\<rparr> ()
   \<and> CanManageFraudAlerts_has_permission
       \<lparr>user = \<lparr>ident = 4, is_authenticated = True,
          profile = Present (Some \<lparr>role = ''adjuster''\<rparr>)\<rparr>, req_method = ''POST''\<rparr> ()"
  using
    fraud_alerts_by_method [of "\<lparr>user = \<lparr>ident = 3, is_authenticated = True,
          profile = Present (Some \<lparr>role = ''reviewer''\<rparr>)\<rparr>, req_method = ''GET''\<rparr>" "()"]
    fraud_alerts_by_method [of "\<lparr>user = \<lparr>ident = 3, is_authenticated = True,
          profile = Present (Some \<lparr>role = ''reviewer''\<rparr>)\<rparr>, req_method = ''POST''\<rparr>" "()"]
    fraud_alerts_by_method [of "\<lparr>user = \<lparr>ident = 4, is_authenticated = True,
          profile = Present (Some \<lparr>role = ''adjuster''\<rparr>)\<rparr>, req_method = ''POST''\<rparr>" "()"]
  by (simp add: SAFE_METHODS_def get_role_def getattr_profile_def)

text \<open>
  C4. For an authenticated user, \<^verbatim>\<open>IsStaffOrReadOnly\<close> allows every request with a safe
  (read-only) method, whatever the role, and allows a request with any other method exactly
  when the resolved role is admin, manager, adjuster, reviewer or agent.
\<close>

theorem staff_or_read_only_by_method:
  assumes "is_authenticated (user req)"
  shows "(req_method req \<in> set SAFE_METHODS \<longrightarrow> IsStaffOrReadOnly_has_permission req view)
       \<and> (req_method req \<notin> set SAFE_METHODS \<longrightarrow>
            IsStaffOrReadOnly_has_permission req view =
              (get_role (user req) \<in> {''admin'', ''manager'', ''adjuster'', ''reviewer'', ''agent''}))"
  using assms by (simp add: IsStaffOrReadOnly_has_permission_def STAFF_ROLES_def)

theorem staff_or_read_only_by_method_witness:
  "is_authenticated (user \<lparr>user = \<lparr>ident = 5, is_authenticated = True,
       profile = Present (Some \<lparr>role = ''customer''\<rparr>)\<rparr>, req_method = ''HEAD''\<rparr>)
   \<and> IsStaffOrReadOnly_has_permission
       \<lparr>user = \<lparr>ident = 5, is_authenticated = True,
          profile = Present (Some \<lparr>role = ''customer''\<rparr>)\<rparr>, req_method = ''HEAD''\<rparr> ()
   \<and> \<not> IsStaffOrReadOnly_has_permission
       \<lparr>user = \<lparr>ident = 5, is_authenticated = True,
          profile = Present (Some \<lparr>role = ''customer''\<rparr>)\<rparr>, req_method = ''DELETE''\<rparr> ()
   \<and> IsStaffOrReadOnly_has_permission
       \<lparr>user = \<lparr>ident = 6, is_authenticated = True,
          profile = Present (Some \<lparr>role = ''agent''\<rparr>)\<rparr>, req_method = ''DELETE''\<rparr> ()"
  using
    staff_or_read_only_by_method [of "\<lparr>user = \<lparr>ident = 5, is_authenticated = True,
          profile = Present (Some \<lparr>role = ''customer''\<rparr>)\<rparr>, req_method = ''HEAD''\<rparr>" "()"]
    staff_or_read_only_by_method [of "\<lparr>user = \<lparr>ident = 5, is_authenticated = True,
          profile = Present (Some \<lparr>role = ''customer''\<rparr>)\<rparr>, req_method = ''DELETE''\<rparr>" "()"]
    staff_or_read_only_by_method [of "\<lparr>user = \<lparr>ident = 6, is_authenticated = True,
          profile = Present (Some \<lparr>role = ''agent''\<rparr>)\<rparr>, req_method = ''DELETE''\<rparr>" "()"]
  by (simp add: SAFE_METHODS_def get_role_def getattr_profile_def)

text \<open>
  C5. For an authenticated user with resolved role \<open>r\<close>, and whatever the method of the
  request: \<^verbatim>\<open>IsStaff\<close> allows exactly when \<open>r\<close> is admin, manager, adjuster, reviewer or
  agent; \<^verbatim>\<open>IsManagement\<close> exactly when \<open>r\<close> is admin or manager; \<^verbatim>\<open>CanProcessClaims\<close>
  exactly when \<open>r\<close> is admin, manager or adjuster; \<^verbatim>\<open>CanViewAnalytics\<close> exactly when
  \<open>r\<close> is admin, manager or reviewer.
\<close>

theorem role_only_decisions:
  assumes "is_authenticated (user req)"
  shows "IsStaff_has_permission (req\<lparr>req_method := m\<rparr>) view =
           (get_role (user req) \<in> {''admin'', ''manager'', ''adjuster'', ''reviewer'', ''agent''})
       \<and> IsManagement_has_permission (req\<lparr>req_method := m\<rparr>) view =
           (get_role (user req) \<in> {''admin'', ''manager''})
       \<and> CanProcessClaims_has_permission (req\<lparr>req_method := m\<rparr>) view =
           (get_role (user req) \<in> {''admin'', ''manager'', ''adjuster''})
       \<and> CanViewAnalytics_has_permission (req\<lparr>req_method := m\<rparr>) view =
           (get_role (user req) \<in> {''admin'', ''manager'', ''reviewer''})"
  using assms
  by (simp add: IsStaff_has_permission_def IsManagement_has_permission_def
      CanProcessClaims_has_permission_def CanViewAnalytics_has_permission_def group_defs)

theorem role_only_decisions_witness:
  "is_authenticated (user \<lparr>user = \<lparr>ident = 8, is_authenticated = True,
       profile = Present (Some \<lparr>role = ''reviewer''\<rparr>)\<rparr>, req_method = ''GET''\<rparr>)
   \<and> IsStaff_has_permission
       \<lparr>user = \<lparr>ident = 8, is_authenticated = True,
          profile = Present (Some \<lparr>role = ''reviewer''\<rparr>)\<rparr>, req_method = ''PUT''\<rparr> ()
   \<and> \<not> IsManagement_has_permission
       \<lparr>user = \<lparr>ident = 8, is_authenticated = True,
          profile = Present (Some \<lparr>role = ''reviewer''\<rparr>)\<rparr>, req_method = ''PUT''\<rparr> ()
   \<and> \<not> CanProcessClaims_has_permission
       \<lparr>user = \<lparr>ident = 8, is_authenticated = True,
          profile = Present (Some \<lparr>role = ''reviewer''\<rparr>)\<rparr>, req_method = ''PUT''\<rparr> ()
   \<and> CanViewAnalytics_has_permission
       \<lparr>user = \<lparr>ident = 8, is_authenticated = True,
          profile = Present (Some \<lparr>role = ''reviewer''\<rparr>)\<rparr>, req_method = ''PUT''\<rparr> ()"
  using
    role_only_decisions [of "\<lparr>user = \<lparr>ident = 8, is_authenticated = True,
          profile = Present (Some \<lparr>role = ''reviewer''\<rparr>)\<rparr>, req_method = ''GET''\<rparr>" "''PUT''" "()"]
  by (simp add: get_role_def getattr_profile_def)

text \<open>
  C9. Admin dominance: an authenticated user whose resolved role is admin is allowed by each
  of the ten decisions, on every request method and every object; and admin is a member of
  each of the four role groups.
\<close>

theorem admin_dominance:
  assumes "is_authenticated (user req)" and "get_role (user req) = ''admin''"
  shows "IsAdmin_has_permission req view
       \<and> IsManagement_has_permission req view
       \<and> IsStaff_has_permission req view
       \<and> IsStaffOrReadOnly_has_permission req view
       \<and> IsOwnerOrStaff_has_object_permission req view obj
       \<and> CanProcessClaims_has_permission req view
       \<and> CanAssignClaims_has_permission req view
       \<and> CanManageFraudAlerts_has_permission req view
       \<and> CanViewAnalytics_has_permission req view
       \<and> CanManageUsers_has_permission req view
       \<and> ''admin'' \<in> set STAFF_ROLES \<and> ''admin'' \<in> set MANAGEMENT_ROLES
       \<and> ''admin'' \<in> set PROCESSING_ROLES \<and> ''admin'' \<in> set OVERSIGHT_ROLES"
  using assms
  by (simp add: has_permission_defs owner_or_staff_unfold group_defs)

theorem admin_dominance_witness:
  "is_authenticated (user \<lparr>user = \<lparr>ident = 9, is_authenticated = True,
       profile = Present (Some \<lparr>role = ''admin''\<rparr>)\<rparr>, req_method = ''DELETE''\<rparr>)
   \<and> get_role (user \<lparr>user = \<lparr>ident = 9, is_authenticated = True,
       profile = Present (Some \<lparr>role = ''admin''\<rparr>)\<rparr>, req_method = ''DELETE''\<rparr>) = ''admin''
   \<and> CanManageFraudAlerts_has_permission
       \<lparr>user = \<lparr>ident = 9, is_authenticated = True,
          profile = Present (Some \<lparr>role = ''admin''\<rparr>)\<rparr>, req_method = ''DELETE''\<rparr> ()
   \<and> IsOwnerOrStaff_has_object_permission
       \<lparr>user = \<lparr>ident = 9, is_authenticated = True,
          profile = Present (Some \<lparr>role = ''admin''\<rparr>)\<rparr>, req_method = ''DELETE''\<rparr> ()
       Map.empty"
  using
    admin_dominance [of "\<lparr>user = \<lparr>ident = 9, is_authenticated = True,
          profile = Present (Some \<lparr>role = ''admin''\<rparr>)\<rparr>, req_method = ''DELETE''\<rparr>" "()" Map.empty]
  by (simp add: get_role_def getattr_profile_def)

text \<open>
  C6. Role resolution has a default: a user whose \<^verbatim>\<open>profile\<close> attribute is missing or is
  \<^verbatim>\<open>None\<close> resolves to the role customer, and each of the ten decisions gives that user
  the answer it gives a user of the same identity and authentication flag whose profile
  carries the role customer, on every request method and every object.
\<close>

theorem default_role_is_customer:
  assumes "profile u = Missing \<or> profile u = Present None"
    and "profile u' = Present (Some p)" and "role p = ''customer''"
    and "ident u' = ident u" and "is_authenticated u' = is_authenticated u"
  shows "get_role u = ''customer''
       \<and> IsAdmin_has_permission \<lparr>user = u, req_method = m\<rparr> view
           = IsAdmin_has_permission \<lparr>user = u', req_method = m\<rparr> view
       \<and> IsManagement_has_permission \<lparr>user = u, req_method = m\<rparr> view
           = IsManagement_has_permission \<lparr>user = u', req_method = m\<rparr> view
       \<and> IsStaff_has_permission \<lparr>user = u, req_method = m\<rparr> view
           = IsStaff_has_permission \<lparr>user = u', req_method = m\<rparr> view
       \<and> IsStaffOrReadOnly_has_permission \<lparr>user = u, req_method = m\<rparr> view
           = IsStaffOrReadOnly_has_permission \<lparr>user = u', req_method = m\<rparr> view
       \<and> IsOwnerOrStaff_has_object_permission \<lparr>user = u, req_method = m\<rparr> view obj
           = IsOwnerOrStaff_has_object_permission \<lparr>user = u', req_method = m\<rparr> view obj
       \<and> CanProcessClaims_has_permission \<lparr>user = u, req_method = m\<rparr> view
           = CanProcessClaims_has_permission \<lparr>user = u', req_method = m\<rparr> view
       \<and> CanAssignClaims_has_permission \<lparr>user = u, req_method = m\<rparr> view
           = CanAssignClaims_has_permission \<lparr>user = u', req_method = m\<rparr> view
       \<and> CanManageFraudAlerts_has_permission \<lparr>user = u, req_method = m\<rparr> view
           = CanManageFraudAlerts_has_permission \<lparr>user = u', req_method = m\<rparr> view
       \<and> CanViewAnalytics_has_permission \<lparr>user = u, req_method = m\<rparr> view
           = CanViewAnalytics_has_permission \<lparr>user = u', req_method = m\<rparr> view
       \<and> CanManageUsers_has_permission \<lparr>user = u, req_method = m\<rparr> view
           = CanManageUsers_has_permission \<lparr>user = u', req_method = m\<rparr> view"
proof -
  from assms(1) have r: "get_role u = ''customer''"
    by (auto simp: get_role_def getattr_profile_def)
  from assms(2,3) have r': "get_role u' = ''customer''"
    by (simp add: get_role_def getattr_profile_def)
  have o: "owned_via obj u' a = owned_via obj u a" for a
    using assms(4) by (rule owned_via_ident)
  show ?thesis
    by (simp add: has_permission_defs owner_or_staff_unfold Let_def r r' o assms(5))
qed

theorem default_role_is_customer_witness:
  "get_role \<lparr>ident = 10, is_authenticated = True, profile = Missing\<rparr> = ''customer''
   \<and> IsStaffOrReadOnly_has_permission
       \<lparr>user = \<lparr>ident = 10, is_authenticated = True, profile = Missing\<rparr>, req_method = ''POST''\<rparr> ()
     = IsStaffOrReadOnly_has_permission
       \<lparr>user = \<lparr>ident = 10, is_authenticated = True,
          profile = Present (Some \<lparr>role = ''customer''\<rparr>)\<rparr>, req_method = ''POST''\<rparr> ()
   \<and> IsOwnerOrStaff_has_object_permission
       \<lparr>user = \<lparr>ident = 10, is_authenticated = True, profile = Missing\<rparr>, req_method = ''POST''\<rparr> ()
       [''holder'' \<mapsto> Some \<lparr>ident = 10, is_authenticated = True, profile = Missing\<rparr>]
     = IsOwnerOrStaff_has_object_permission
       \<lparr>user = \<lparr>ident = 10, is_authenticated = True,
          profile = Present (Some \<lparr>role = ''customer''\<rparr>)\<rparr>, req_method = ''POST''\<rparr> ()
       [''holder'' \<mapsto> Some \<lparr>ident = 10, is_authenticated = True, profile = Missing\<rparr>]"
  using
    default_role_is_customer [of "\<lparr>ident = 10, is_authenticated = True, profile = Missing\<rparr>"
      "\<lparr>ident = 10, is_authenticated = True, profile = Present (Some \<lparr>role = ''customer''\<rparr>)\<rparr>"
      "\<lparr>role = ''customer''\<rparr>" "''POST''" "()"
      "[''holder'' \<mapsto> Some \<lparr>ident = 10, is_authenticated = True, profile = Missing\<rparr>]"]
  by simp

section \<open>The Python-level code raises nothing, writes nothing, and agrees with the records\<close>

lemmas py_monad_defs = py_return_def py_bind_def py_getattr_def py_getattr_default_def
  py_hasattr_def

lemma preserves_heap_return: "preserves_heap (py_return x)"
  by (simp add: preserves_heap_def py_return_def)

lemma preserves_heap_getattr: "preserves_heap (py_getattr v n)"
  by (simp add: preserves_heap_def py_getattr_def)

lemma preserves_heap_getattr_default: "preserves_heap (py_getattr_default v n d)"
  by (simp add: preserves_heap_def py_getattr_default_def)

lemma preserves_heap_hasattr: "preserves_heap (py_hasattr v n)"
  by (simp add: preserves_heap_def py_hasattr_def)

lemma preserves_heap_bind:
  assumes "preserves_heap m" and "\<And>x. preserves_heap (f x)"
  shows "preserves_heap (py_bind m f)"
  using assms
  by (auto simp: preserves_heap_def py_bind_def split: prod.splits sum.splits
      dest: arg_cong [where f = snd])

lemmas preserves_heap_intros = preserves_heap_bind preserves_heap_return
  preserves_heap_getattr preserves_heap_getattr_default preserves_heap_hasattr

lemma preserves_heap_get_role: "preserves_heap (py_get_role u)"
  unfolding py_get_role_def
  by (intro preserves_heap_bind preserves_heap_getattr_default)
     (simp add: preserves_heap_getattr preserves_heap_return)

lemma preserves_heap_authenticated_and: "preserves_heap (authenticated_and req t)"
  unfolding authenticated_and_def
  by (intro preserves_heap_bind preserves_heap_getattr)
     (auto intro!: preserves_heap_intros preserves_heap_get_role)

lemma preserves_heap_owner_test: "preserves_heap (py_owner_test req obj n)"
  unfolding py_owner_test_def
  by (intro preserves_heap_bind preserves_heap_hasattr)
     (auto intro!: preserves_heap_intros)

lemma preserves_heap_IsStaffOrReadOnly: "preserves_heap (py_IsStaffOrReadOnly req view)"
  unfolding py_IsStaffOrReadOnly_def
  by (intro preserves_heap_bind preserves_heap_getattr)
     (auto intro!: preserves_heap_intros preserves_heap_get_role)

lemma preserves_heap_CanManageFraudAlerts: "preserves_heap (py_CanManageFraudAlerts req view)"
  unfolding py_CanManageFraudAlerts_def
  by (intro preserves_heap_bind preserves_heap_getattr)
     (auto intro!: preserves_heap_intros preserves_heap_get_role)

lemma preserves_heap_IsOwnerOrStaff: "preserves_heap (py_IsOwnerOrStaff req view obj)"
  unfolding py_IsOwnerOrStaff_def
  by (intro preserves_heap_bind preserves_heap_getattr preserves_heap_get_role)
     (auto intro!: preserves_heap_intros preserves_heap_owner_test)

text \<open>What membership in the input domain gives.\<close>

lemma abs_request_SomeD:
  assumes "abs_request h req = Some R"
  obtains a b m where
    "attr_lookup h req ''user'' = Some (PyRef a)"
    "attr_lookup h (PyRef a) ''is_authenticated'' = Some (PyBool b)"
    "attr_lookup h req ''method'' = Some (PyStr m)"
    "profile_ok h a"
    "R = \<lparr>user = abs_user h a, req_method = m\<rparr>"
  using assms
  by (auto simp: abs_request_def split: option.splits pyval.splits if_splits)

lemma attr_lookup_PyNone: "attr_lookup h PyNone n = None"
  by (simp add: attr_lookup_def)

lemma get_role_refines:
  "profile_ok h a \<Longrightarrow> py_get_role (PyRef a) h = (Inr (PyStr (get_role (abs_user h a))), h)"
  by (auto simp: profile_ok_def py_get_role_def py_monad_defs truthy_def get_role_def
      getattr_profile_def abs_user_def abs_profile_def attr_lookup_PyNone
      split: option.splits pyval.splits)

lemma py_in_str: "py_in (PyStr s) t = (s \<in> set t)"
  by (simp add: py_in_def)

lemma authenticated_and_refines:
  assumes "abs_request h req = Some R"
  shows "authenticated_and req t h =
           (Inr (PyBool (is_authenticated (user R) \<and> t (PyStr (get_role (user R))))), h)"
proof -
  from assms obtain a b m where
    u: "attr_lookup h req ''user'' = Some (PyRef a)" and
    f: "attr_lookup h (PyRef a) ''is_authenticated'' = Some (PyBool b)" and
    p: "profile_ok h a" and
    R: "R = \<lparr>user = abs_user h a, req_method = m\<rparr>"
    by (rule abs_request_SomeD)
  have au: "is_authenticated (abs_user h a) = b"
    by (simp add: abs_user_def f)
  show ?thesis
    by (cases b)
       (simp_all add: authenticated_and_def py_return_def py_bind_def py_getattr_def
         u f R au truthy_def get_role_refines [OF p])
qed

lemma IsStaffOrReadOnly_refines:
  assumes "abs_request h req = Some R"
  shows "py_IsStaffOrReadOnly req view h =
           (Inr (PyBool (IsStaffOrReadOnly_has_permission R view)), h)"
proof -
  from assms obtain a b m where
    u: "attr_lookup h req ''user'' = Some (PyRef a)" and
    f: "attr_lookup h (PyRef a) ''is_authenticated'' = Some (PyBool b)" and
    m: "attr_lookup h req ''method'' = Some (PyStr m)" and
    p: "profile_ok h a" and
    R: "R = \<lparr>user = abs_user h a, req_method = m\<rparr>"
    by (rule abs_request_SomeD)
  have au: "is_authenticated (abs_user h a) = b"
    by (simp add: abs_user_def f)
  show ?thesis
    by (cases b)
       (simp_all add: py_IsStaffOrReadOnly_def IsStaffOrReadOnly_has_permission_def
         py_return_def py_bind_def py_getattr_def u f m R au truthy_def py_in_str
         get_role_refines [OF p])
qed

lemma CanManageFraudAlerts_refines:
  assumes "abs_request h req = Some R"
  shows "py_CanManageFraudAlerts req view h =
           (Inr (PyBool (CanManageFraudAlerts_has_permission R view)), h)"
proof -
  from assms obtain a b m where
    u: "attr_lookup h req ''user'' = Some (PyRef a)" and
    f: "attr_lookup h (PyRef a) ''is_authenticated'' = Some (PyBool b)" and
    m: "attr_lookup h req ''method'' = Some (PyStr m)" and
    p: "profile_ok h a" and
    R: "R = \<lparr>user = abs_user h a, req_method = m\<rparr>"
    by (rule abs_request_SomeD)
  have au: "is_authenticated (abs_user h a) = b"
    by (simp add: abs_user_def f)
  show ?thesis
    by (cases b)
       (simp_all add: py_CanManageFraudAlerts_def CanManageFraudAlerts_has_permission_def
         py_return_def py_bind_def py_getattr_def u f m R au truthy_def py_in_str Let_def
         get_role_refines [OF p])
qed

lemma owner_test_refines:
  assumes "attr_lookup h req ''user'' = Some (PyRef a)"
  shows "py_owner_test req obj n h = (Inr (owned_via (abs_target h obj) (abs_user h a) n), h)"
  using assms
  by (auto simp: py_owner_test_def py_monad_defs owned_via_def hasattr_def attr_value_def
      user_eq_def abs_target_def abs_user_def split: option.splits pyval.splits)

lemma IsOwnerOrStaff_refines:
  assumes "abs_request h req = Some R"
  shows "py_IsOwnerOrStaff req view obj h =
           (Inr (PyBool (IsOwnerOrStaff_has_object_permission R view (abs_target h obj))), h)"
proof -
  from assms obtain a b m where
    u: "attr_lookup h req ''user'' = Some (PyRef a)" and
    p: "profile_ok h a" and
    R: "R = \<lparr>user = abs_user h a, req_method = m\<rparr>"
    by (rule abs_request_SomeD)
  show ?thesis
    by (simp add: py_IsOwnerOrStaff_def owner_or_staff_unfold py_return_def py_bind_def
        py_getattr_def u R py_in_str get_role_refines [OF p] owner_test_refines [OF u])
qed






text \<open>
  C7. Every decision is deterministic and pure. Run on Python objects, a permission class
  leaves the heap exactly as it found it, whatever its arguments and also when it raises.
  Its result is fixed by its explicit inputs and the constant role tuples: two invocations,
  in any two heaps and with any two views, return the same result as soon as their requests
  stand for the same record (the same user, flag, profile and method) and their objects for
  the same map of attributes. Two invocations on identical inputs are the case of one heap.
\<close>

theorem decisions_are_pure:
  "snd (py_IsAdmin req view h) = h
   \<and> snd (py_IsManagement req view h) = h
   \<and> snd (py_IsStaff req view h) = h
   \<and> snd (py_IsStaffOrReadOnly req view h) = h
   \<and> snd (py_IsOwnerOrStaff req view obj h) = h
   \<and> snd (py_CanProcessClaims req view h) = h
   \<and> snd (py_CanAssignClaims req view h) = h
   \<and> snd (py_CanManageFraudAlerts req view h) = h
   \<and> snd (py_CanViewAnalytics req view h) = h
   \<and> snd (py_CanManageUsers req view h) = h
   \<and> (abs_request h1 req1 = Some R \<and> abs_request h2 req2 = Some R
        \<and> abs_target h1 obj1 = abs_target h2 obj2 \<longrightarrow>
          fst (py_IsAdmin req1 v1 h1) = fst (py_IsAdmin req2 v2 h2)
        \<and> fst (py_IsManagement req1 v1 h1) = fst (py_IsManagement req2 v2 h2)
        \<and> fst (py_IsStaff req1 v1 h1) = fst (py_IsStaff req2 v2 h2)
        \<and> fst (py_IsStaffOrReadOnly req1 v1 h1) = fst (py_IsStaffOrReadOnly req2 v2 h2)
        \<and> fst (py_IsOwnerOrStaff req1 v1 obj1 h1) = fst (py_IsOwnerOrStaff req2 v2 obj2 h2)
        \<and> fst (py_CanProcessClaims req1 v1 h1) = fst (py_CanProcessClaims req2 v2 h2)
        \<and> fst (py_CanAssignClaims req1 v1 h1) = fst (py_CanAssignClaims req2 v2 h2)
        \<and> fst (py_CanManageFraudAlerts req1 v1 h1) = fst (py_CanManageFraudAlerts req2 v2 h2)
        \<and> fst (py_CanViewAnalytics req1 v1 h1) = fst (py_CanViewAnalytics req2 v2 h2)
        \<and> fst (py_CanManageUsers req1 v1 h1) = fst (py_CanManageUsers req2 v2 h2))"
proof -
  have keep: "snd (authenticated_and req t h) = h" for t
    using preserves_heap_authenticated_and [of req t] by (simp add: preserves_heap_def)
  have k1: "snd (py_IsStaffOrReadOnly req view h) = h"
    using preserves_heap_IsStaffOrReadOnly [of req view] by (simp add: preserves_heap_def)
  have k2: "snd (py_IsOwnerOrStaff req view obj h) = h"
    using preserves_heap_IsOwnerOrStaff [of req view obj] by (simp add: preserves_heap_def)
  have k3: "snd (py_CanManageFraudAlerts req view h) = h"
    using preserves_heap_CanManageFraudAlerts [of req view] by (simp add: preserves_heap_def)
  have same: "abs_request h1 req1 = Some R \<Longrightarrow> abs_request h2 req2 = Some R \<Longrightarrow>
      abs_target h1 obj1 = abs_target h2 obj2 \<Longrightarrow>
        fst (authenticated_and req1 t h1) = fst (authenticated_and req2 t h2)
      \<and> fst (py_IsStaffOrReadOnly req1 v1 h1) = fst (py_IsStaffOrReadOnly req2 v2 h2)
      \<and> fst (py_IsOwnerOrStaff req1 v1 obj1 h1) = fst (py_IsOwnerOrStaff req2 v2 obj2 h2)
      \<and> fst (py_CanManageFraudAlerts req1 v1 h1) = fst (py_CanManageFraudAlerts req2 v2 h2)"
    for t
    by (simp add: authenticated_and_refines IsStaffOrReadOnly_refines IsOwnerOrStaff_refines
        CanManageFraudAlerts_refines IsStaffOrReadOnly_has_permission_def
        CanManageFraudAlerts_has_permission_def owner_or_staff_unfold)
  show ?thesis
    using same
    by (simp add: py_IsAdmin_def py_IsManagement_def py_IsStaff_def py_CanProcessClaims_def
        py_CanAssignClaims_def py_CanViewAnalytics_def py_CanManageUsers_def keep k1 k2 k3)
qed

theorem decisions_are_pure_witness:
  "abs_request
       [4 \<mapsto> [''user'' \<mapsto> PyRef 2, ''method'' \<mapsto> PyStr ''GET''],
        2 \<mapsto> [''is_authenticated'' \<mapsto> PyBool True, ''profile'' \<mapsto> PyRef 3],
        3 \<mapsto> [''role'' \<mapsto> PyStr ''reviewer'']]
       (PyRef 4)
     = Some \<lparr>user = \<lparr>ident = 2, is_authenticated = True,
                      profile = Present (Some \<lparr>role = ''reviewer''\<rparr>)\<rparr>,
             req_method = ''GET''\<rparr>
   \<and> abs_request
       [7 \<mapsto> [''user'' \<mapsto> PyRef 2, ''method'' \<mapsto> PyStr ''GET'', ''path'' \<mapsto> PyStr ''/a''],
        2 \<mapsto> [''is_authenticated'' \<mapsto> PyBool True, ''profile'' \<mapsto> PyRef 9,
             ''email'' \<mapsto> PyNone],
        9 \<mapsto> [''role'' \<mapsto> PyStr ''reviewer'']]
       (PyRef 7)
     = Some \<lparr>user = \<lparr>ident = 2, is_authenticated = True,
                      profile = Present (Some \<lparr>role = ''reviewer''\<rparr>)\<rparr>,
             req_method = ''GET''\<rparr>
   \<and> fst (py_CanViewAnalytics (PyRef 4) ()
       [4 \<mapsto> [''user'' \<mapsto> PyRef 2, ''method'' \<mapsto> PyStr ''GET''],
        2 \<mapsto> [''is_authenticated'' \<mapsto> PyBool True, ''profile'' \<mapsto> PyRef 3],
        3 \<mapsto> [''role'' \<mapsto> PyStr ''reviewer'']])
     = fst (py_CanViewAnalytics (PyRef 7) True
       [7 \<mapsto> [''user'' \<mapsto> PyRef 2, ''method'' \<mapsto> PyStr ''GET'', ''path'' \<mapsto> PyStr ''/a''],
        2 \<mapsto> [''is_authenticated'' \<mapsto> PyBool True, ''profile'' \<mapsto> PyRef 9,
             ''email'' \<mapsto> PyNone],
        9 \<mapsto> [''role'' \<mapsto> PyStr ''reviewer'']])
   \<and> snd (py_IsOwnerOrStaff (PyRef 4) () PyNone
       [4 \<mapsto> [''user'' \<mapsto> PyRef 2, ''method'' \<mapsto> PyStr ''GET''],
        2 \<mapsto> [''is_authenticated'' \<mapsto> PyBool True, ''profile'' \<mapsto> PyRef 3],
        3 \<mapsto> [''role'' \<mapsto> PyStr ''reviewer'']])
     = [4 \<mapsto> [''user'' \<mapsto> PyRef 2, ''method'' \<mapsto> PyStr ''GET''],
        2 \<mapsto> [''is_authenticated'' \<mapsto> PyBool True, ''profile'' \<mapsto> PyRef 3],
        3 \<mapsto> [''role'' \<mapsto> PyStr ''reviewer'']]"
proof -
  let ?h1 = "[4 \<mapsto> [''user'' \<mapsto> PyRef 2, ''method'' \<mapsto> PyStr ''GET''],
        2 \<mapsto> [''is_authenticated'' \<mapsto> PyBool True, ''profile'' \<mapsto> PyRef 3],
        3 \<mapsto> [''role'' \<mapsto> PyStr ''reviewer'']] :: heap"
  let ?h2 = "[7 \<mapsto> [''user'' \<mapsto> PyRef 2, ''method'' \<mapsto> PyStr ''GET'', ''path'' \<mapsto> PyStr ''/a''],
        2 \<mapsto> [''is_authenticated'' \<mapsto> PyBool True, ''profile'' \<mapsto> PyRef 9,
             ''email'' \<mapsto> PyNone],
        9 \<mapsto> [''role'' \<mapsto> PyStr ''reviewer'']] :: heap"
  let ?R = "\<lparr>user = \<lparr>ident = 2, is_authenticated = True,
                      profile = Present (Some \<lparr>role = ''reviewer''\<rparr>)\<rparr>,
             req_method = ''GET''\<rparr>"
  have a1: "abs_request ?h1 (PyRef 4) = Some ?R"
    by (simp add: abs_request_def attr_lookup_def profile_ok_def abs_user_def abs_profile_def)
  have a2: "abs_request ?h2 (PyRef 7) = Some ?R"
    by (simp add: abs_request_def attr_lookup_def profile_ok_def abs_user_def abs_profile_def)
  have a3: "abs_target ?h1 PyNone = abs_target ?h2 PyNone"
    by (simp add: abs_target_def attr_lookup_def fun_eq_iff)
  show ?thesis
    using a1 a2 a3
      decisions_are_pure [of "PyRef 4" "()" ?h1 PyNone ?h1 "PyRef 4" ?R ?h2 "PyRef 7"
        PyNone PyNone "()" True]
    by simp
qed



end
